theory Spec2Isabelle
  imports Complex_Main "HOL-Library.Signed_Division"
begin

section \<open>Machine numbers\<close>

text \<open>
  Go's \<open>int64\<close> (and \<open>int\<close>, taken to be 64 bits wide as on every platform the
  tool is built for) is modelled as \<open>int\<close> with the wrap-around written out.
  \<open>float64\<close> is idealised as \<open>real\<close>: rounding, NaN and the infinities are not
  represented, except for the one infinity the harm package names.
\<close>

definition is_int64 :: "int \<Rightarrow> bool" where
  "is_int64 x \<longleftrightarrow> - (2 ^ 63) \<le> x \<and> x < 2 ^ 63"

definition wrap64 :: "int \<Rightarrow> int" where
  "wrap64 x = (x + 2 ^ 63) mod 2 ^ 64 - 2 ^ 63"

text \<open>Integer division \<open>a / b\<close> of Go, for \<open>b \<noteq> 0\<close>: the quotient is truncated toward zero.\<close>

definition div64 :: "int \<Rightarrow> int \<Rightarrow> int" where
  "div64 a b = wrap64 (a sdiv b)"

text \<open>The conversion \<open>int(f)\<close> of a float: the fraction is discarded (truncation toward zero).\<close>

definition float_to_int :: "real \<Rightarrow> int" where
  "float_to_int x = (if 0 \<le> x then \<lfloor>x\<rfloor> else \<lceil>x\<rceil>)"

section \<open>Package harm\<close>

text \<open>\<open>type Harm float64\<close>, with \<open>Infinity = Harm(math.Inf(+1))\<close>.\<close>

datatype Harm = Finite real | Infinity

fun Invalid :: "Harm \<Rightarrow> bool" where
  "Invalid (Finite h) = (h < 0 \<or> h > 1)"
| "Invalid Infinity = True"

fun Zero :: "Harm \<Rightarrow> bool" where
  "Zero (Finite h) = (h = 0)"
| "Zero Infinity = False"

fun Nonzero :: "Harm \<Rightarrow> bool" where
  "Nonzero (Finite h) = (h > 0 \<and> \<not> Invalid (Finite h))"
| "Nonzero Infinity = False"

definition LessIsBetter :: "real \<Rightarrow> real \<Rightarrow> Harm" where
  "LessIsBetter solo workload =
     (if workload = 0 then Infinity
      else if workload < solo then Finite 0
      else Finite ((workload - solo) / workload))"

definition MoreIsBetter :: "real \<Rightarrow> real \<Rightarrow> Harm" where
  "MoreIsBetter solo workload =
     (if solo = 0 then Infinity
      else if workload > solo then Finite 0
      else Finite ((solo - workload) / solo))"

section \<open>Package metric\<close>

text \<open>\<open>metric.FCT\<close> embeds a \<open>Duration\<close> (nanoseconds) and carries a harm.\<close>

record FCT =
  Duration :: int
  Harm :: Harm

definition FCTFromFloat64 :: "real \<Rightarrow> FCT" where
  "FCTFromFloat64 f = \<lparr>Duration = float_to_int f, Harm = Finite 0\<rparr>"

definition FCT_SetHarm :: "FCT \<Rightarrow> FCT \<Rightarrow> FCT" where
  "FCT_SetHarm f solo =
     f\<lparr>Harm := LessIsBetter (real_of_int (Duration solo)) (real_of_int (Duration f))\<rparr>"

section \<open>Package unit and the defaults of the client\<close>

definition Kilobyte :: int where "Kilobyte = 1024"
definition Megabyte :: int where "Megabyte = 1024 * Kilobyte"

definition Millisecond :: int where "Millisecond = 1000000"
definition Second :: int where "Second = 1000 * Millisecond"

definition DefaultAddr :: string where "DefaultAddr = ''localhost''"
definition DefaultCCA :: string where "DefaultCCA = ''cubic''"
definition DefaultDuration :: int where "DefaultDuration = 10 * Second"
definition DefaultMeanArrival :: int where "DefaultMeanArrival = 200 * Millisecond"
definition DefaultArrivalExpRate :: real where "DefaultArrivalExpRate = 1"
definition DefaultLenP5 :: int where "DefaultLenP5 = 64 * Kilobyte"
definition DefaultLenP95 :: int where "DefaultLenP95 = 2 * Megabyte"

text \<open>\<open>DefaultPort = 8188\<close>, as \<open>%d\<close> prints it.\<close>

definition DefaultPort :: string where "DefaultPort = ''8188''"
definition FlowLengthHeader :: string where "FlowLengthHeader = ''FCT-Flow-Length''"
definition CCAHeader :: string where "CCAHeader = ''FCT-CCA''"
definition FCTPath :: string where "FCTPath = ''/fct''"

section \<open>The workload plan: Params, Test and NewTest\<close>

text \<open>\<open>strings.Split(s, sep)\<close> for a separator of one character.\<close>

fun Split :: "string \<Rightarrow> char \<Rightarrow> string list" where
  "Split [] sep = [[]]"
| "Split (c # cs) sep =
     (if c = sep then [] # Split cs sep
      else (case Split cs sep of [] \<Rightarrow> [[c]] | f # fs \<Rightarrow> (c # f) # fs))"

record Params =
  Addr :: string
  CCA :: string
  Duration :: int
  MeanArrival :: int
  ArrivalExpRate :: real
  LenP5 :: int
  LenP95 :: int
  DisableGC :: bool

text \<open>\<open>(*Params).init\<close>: every field left at its zero value takes its default.\<close>

definition init :: "Params \<Rightarrow> Params" where
  "init p =
     p\<lparr>Addr := (if Addr p = [] then DefaultAddr else Addr p),
       CCA := (if CCA p = [] then DefaultCCA else CCA p),
       Duration := (if Duration p = 0 then DefaultDuration else Duration p),
       MeanArrival := (if MeanArrival p = 0 then DefaultMeanArrival else MeanArrival p),
       ArrivalExpRate :=
         (if ArrivalExpRate p = 0 then DefaultArrivalExpRate else ArrivalExpRate p),
       LenP5 := (if LenP5 p = 0 then DefaultLenP5 else LenP5 p),
       LenP95 := (if LenP95 p = 0 then DefaultLenP95 else LenP95 p)\<rparr>"

record Exponential =
  Rate :: real

record LogNormal =
  Mu :: real
  Sigma :: real

record Test = Params +
  URL :: string
  Flows :: int
  ArrivalDist :: Exponential
  LenDist :: LogNormal
  MeanFlowLen :: int
  Bandwidth :: int

text \<open>
  The two logarithms, \<open>mu\<close>, \<open>sigma\<close> and \<open>mfl\<close> are local variables of
  \<open>NewTest\<close>; they are named here so that statements can refer to them.
\<close>

definition log5 :: "Params \<Rightarrow> real" where
  "log5 t = ln (real_of_int (LenP5 t))"

definition log95 :: "Params \<Rightarrow> real" where
  "log95 t = ln (real_of_int (LenP95 t))"

definition mu :: "Params \<Rightarrow> real" where
  "mu t = (log5 t + log95 t) / 2"

definition sigma :: "Params \<Rightarrow> real" where
  "sigma t = (log95 t - log5 t) / (2 * 1.645)"

definition rps :: "Params \<Rightarrow> real" where
  "rps t = real_of_int (div64 (1 * Second) (MeanArrival t))"

definition mfl :: "Params \<Rightarrow> real" where
  "mfl t = exp (mu t + 0.5 * (sigma t) ^ 2)"

definition NewTest :: "Params \<Rightarrow> Test" where
  "NewTest p =
     (let t = init p;
          f = Split (Addr t) (CHR '':'');
          t = (if length f = 1 then t\<lparr>Addr := Addr t @ '':'' @ DefaultPort\<rparr> else t)
      in Params.extend t
           (Test.fields
              (''http://'' @ Addr t @ FCTPath)
              (div64 (Duration t) (MeanArrival t))
              \<lparr>Rate = ArrivalExpRate t\<rparr>
              \<lparr>Mu = mu t, Sigma = sigma t\<rparr>
              (float_to_int (mfl t))
              (float_to_int (rps t * mfl t * 8))))"

section \<open>The flow record log\<close>

text \<open>
  Instants of \<open>time.Time\<close> are nanoseconds on one clock; \<open>Time.Sub\<close> saturates at the
  bounds of \<open>int64\<close>.
\<close>

definition sat64 :: "int \<Rightarrow> int" where
  "sat64 x = (if x < - (2 ^ 63) then - (2 ^ 63) else if 2 ^ 63 \<le> x then 2 ^ 63 - 1 else x)"

record Flow =
  Start :: int
  End :: int
  Length :: int

definition Flow_Duration :: "Flow \<Rightarrow> int" where
  "Flow_Duration f = sat64 (End f - Start f)"

record Data =
  Flow :: "Flow list"
  Start :: int
  End :: int

definition newData :: Data where
  "newData = \<lparr>Flow = [], Start = 0, End = 0\<rparr>"

definition AddFlow :: "Data \<Rightarrow> Flow \<Rightarrow> Data" where
  "AddFlow d f = d\<lparr>Flow := Flow d @ [f]\<rparr>"

definition FlowDurations :: "Data \<Rightarrow> int list" where
  "FlowDurations d = map Flow_Duration (Flow d)"

section \<open>One flow: doRequest\<close>

type_synonym error = string

text \<open>\<open>countWriter\<close> counts and discards bytes; its \<open>Write\<close> never fails.\<close>

record countWriter =
  Bytes :: int

definition countWriter_Write :: "countWriter \<Rightarrow> string \<Rightarrow> countWriter \<times> int \<times> error option" where
  "countWriter_Write w p = (w\<lparr>Bytes := wrap64 (Bytes w + int (length p))\<rparr>, int (length p), None)"

text \<open>Decimal printing, as \<open>strconv.Itoa\<close> does it.\<close>

fun digits :: "nat \<Rightarrow> string" where
  "digits n =
     (if n < 10 then [char_of (48 + n)] else digits (n div 10) @ [char_of (48 + n mod 10)])"

definition Itoa :: "int \<Rightarrow> string" where
  "Itoa i = (if i < 0 then CHR ''-'' # digits (nat (- i)) else digits (nat i))"

record Request =
  Method :: string
  Target :: string
  Header :: "(string \<times> string) list"


record Response =
  Proto :: string
  Status :: string
  StatusCode :: int
  HeaderLines :: "string list"
  Body :: string
  BodyErr :: "error option"

definition CRLF :: string where
  "CRLF = [CHR 0x0D, CHR 0x0A]"

text \<open>
  \<open>(*http.Response).Write\<close> belongs to Go's standard library, not to this repository.
  It is modelled from its documentation: it writes the response in the HTTP/1.x server
  format, that is the status line, the header lines, an empty line and then the body, and
  fails if the body cannot be read to its end. The value is the sequence of slices handed
  to the writer, and the error. The framing of a chunked body, which adds further bytes, is
  left out.
\<close>

definition Response_Write :: "Response \<Rightarrow> string list \<times> error option" where
  "Response_Write r =
     ([Proto r @ '' '' @ Status r @ CRLF] @ map (\<lambda>h. h @ CRLF) (HeaderLines r) @ [CRLF] @
        (if Body r = [] then [] else [Body r]),
      BodyErr r)"

text \<open>
  What the network and the clock answer to one call of \<open>doRequest\<close>: whether the request
  can be built, what \<open>client.Do\<close> returns, and the two readings of \<open>time.Now\<close>.
\<close>

record HTTPEnv =
  NewRequestErr :: "error option"
  Do :: "Request \<Rightarrow> error + Response"
  NowStart :: int
  NowEnd :: int

definition doRequest :: "Test \<Rightarrow> HTTPEnv \<Rightarrow> int \<Rightarrow> error + Flow" where
  "doRequest t env reqLen =
     (case NewRequestErr env of
        Some e \<Rightarrow> Inl e
      | None \<Rightarrow>
          (let req = \<lparr>Method = ''GET'', Target = URL t,
                      Header = [(FlowLengthHeader, Itoa reqLen)] @
                        (if CCA t \<noteq> [] then [(CCAHeader, CCA t)] else [])\<rparr>
           in case Do env req of
                Inl e \<Rightarrow> Inl e
              | Inr resp \<Rightarrow>
                  if StatusCode resp \<noteq> 200
                  then Inl (''client received: '' @ Status resp @ '' ('' @
                            Itoa (StatusCode resp) @ '')'')
                  else
                    (let (slices, werr) = Response_Write resp;
                         cw = foldl (\<lambda>w p. fst (countWriter_Write w p)) \<lparr>Bytes = 0\<rparr> slices
                     in case werr of
                          Some e \<Rightarrow> Inl e
                        | None \<Rightarrow> Inr \<lparr>Flow.Start = NowStart env, Flow.End = NowEnd env,
                                        Flow.Length = Bytes cw\<rparr>)))"

section \<open>Statistics\<close>

record Stats =
  GeoMean :: FCT
  Median :: FCT
  P95 :: FCT

text \<open>
  \<open>stat.GeometricMean\<close> and \<open>stat.Quantile\<close> (with \<open>stat.Empirical\<close>) come from the
  gonum library; \<open>Analyze\<close> takes them as the parameters \<open>geometricMean\<close> and \<open>quantile\<close>.
\<close>

definition Analyze ::
  "(real list \<Rightarrow> real) \<Rightarrow> (real \<Rightarrow> real list \<Rightarrow> real) \<Rightarrow> Data \<Rightarrow> error + Stats" where
  "Analyze geometricMean quantile d =
     (let durs = FlowDurations d
      in if length durs = 0 then Inl ''unable to analyze empty flow durations''
         else
           (let f = sort (map real_of_int durs);
                geomean = geometricMean f;
                median = quantile 0.5 f;
                p95 = quantile 0.95 f
            in Inr \<lparr>GeoMean = FCTFromFloat64 geomean, Median = FCTFromFloat64 median,
                     P95 = FCTFromFloat64 p95\<rparr>))"

definition Stats_SetHarm :: "Stats \<Rightarrow> Stats \<Rightarrow> Stats" where
  "Stats_SetHarm s solo =
     s\<lparr>GeoMean := FCT_SetHarm (GeoMean s) (GeoMean solo),
       Median := FCT_SetHarm (Median s) (Median solo),
       P95 := FCT_SetHarm (P95 s) (P95 solo)\<rparr>"

section \<open>The server\<close>

text \<open>A handler either returns, panics, or never returns.\<close>

datatype 'a outcome = Returns 'a | Panics | Diverges





text \<open>
  The \<open>http.ResponseWriter\<close> of one request: the status code once the header is sent, the
  slices written to the body in order, and how many bytes the connection still takes
  before its first write error (\<open>None\<close>: it never fails). A write that fails reports the
  bytes that went through, as the contract of \<open>io.Writer\<close> demands.
\<close>

record ResponseWriter =
  status :: "int option"
  chunks :: "string list"
  quota :: "nat option"













section \<open>Package executor\<close>

record Spec =
  Context :: "nat option"
  Stdin :: "string option"
  Background :: bool
  NoWait :: bool
  IgnoreErrors :: bool
  Log :: bool
  LogStdout :: bool
  LogStderr :: bool
  Emit :: bool
  EmitStdout :: bool
  EmitStderr :: bool

text \<open>The zero value \<open>Spec{}\<close>.\<close>

definition Spec_zero :: Spec where
  "Spec_zero = \<lparr>Context = None, Stdin = None, Background = False, NoWait = False,
     IgnoreErrors = False, Log = False, LogStdout = False, LogStderr = False, Emit = False,
     EmitStdout = False, EmitStderr = False\<rparr>"

text \<open>
  An \<open>exec.Cmd\<close>: the program and its arguments (\<open>Args\<close> starts with the program name),
  the context it was made with, what \<open>RunCommand\<close> sets on it, and the state of its
  process: whether \<open>Start\<close> has succeeded and whether \<open>Wait\<close> has been called.
\<close>

record Cmd =
  Path :: string
  Args :: "string list"
  Ctx :: "nat option"
  Env :: "string list"
  Pdeathsig :: "nat option"
  Started :: bool
  Finished :: bool

definition SIGTERM :: nat where
  "SIGTERM = 15"

definition exec_Command :: "string \<Rightarrow> string list \<Rightarrow> Cmd" where
  "exec_Command name arg =
     \<lparr>Path = name, Args = name # arg, Ctx = None, Env = [], Pdeathsig = None,
      Started = False, Finished = False\<rparr>"

definition exec_CommandContext :: "nat \<Rightarrow> string \<Rightarrow> string list \<Rightarrow> Cmd" where
  "exec_CommandContext ctx name arg = (exec_Command name arg)\<lparr>Ctx := Some ctx\<rparr>"

text \<open>
  What the operating system answers for one command line: the errors of the three pipe
  calls, of \<open>Start\<close> and of \<open>Wait\<close> (\<open>None\<close> for exit status 0), and the bytes the
  process writes to its two output streams.
\<close>

record Answers =
  stdinPipeErr :: "error option"
  stdoutPipeErr :: "error option"
  stderrPipeErr :: "error option"
  startErr :: "error option"
  exitErr :: "error option"
  outBytes :: string
  errBytes :: string

datatype log_entry =
  LogCommand "string list"
| LogOutput string "string list" string
| LogFailed "string list" error
| LogStderrWas string

text \<open>
  Everything outside the executor: the answers of the operating system, the environment,
  the package variable \<open>Trace\<close>, and what has happened so far: the processes started, the
  lines logged, the bytes echoed to the standard error of the tool.
\<close>

record World =
  os :: "string list \<Rightarrow> Answers"
  Environ :: "string list"
  GlobalTrace :: bool
  started :: "string list list"
  logged :: "log_entry list"
  echoed :: string

record Job = Spec +
  Command :: Cmd
  Stdout :: string
  Stderr :: string
  Err :: "error option"

text \<open>
  \<open>Job\<close> is \<open>nil\<close> (\<open>None\<close>) or a slice of pointers. Every job the executor makes is
  stored there, so a \<open>*Job\<close> is modelled by the position of the job in the slice.
\<close>

record Executor =
  Trace :: bool
  IgnoreErrors :: bool
  NoLogErrors :: bool
  Job :: "Job list option"
  Errors :: int
  waited :: bool

definition jobs :: "Executor \<Rightarrow> Job list" where
  "jobs e = (case Job e of None \<Rightarrow> [] | Some js \<Rightarrow> js)"

definition updJob :: "Executor \<Rightarrow> nat \<Rightarrow> (Job \<Rightarrow> Job) \<Rightarrow> Executor" where
  "updJob e i f = e\<lparr>Job := Some ((jobs e)[i := f (jobs e ! i)])\<rparr>"

definition addLog :: "World \<Rightarrow> log_entry \<Rightarrow> World" where
  "addLog w l = w\<lparr>logged := logged w @ [l]\<rparr>"

text \<open>\<open>(*exec.Cmd).Start\<close> and \<open>(*exec.Cmd).Wait\<close>.\<close>

definition Cmd_Start :: "World \<Rightarrow> Cmd \<Rightarrow> Cmd \<times> World \<times> error option" where
  "Cmd_Start w c =
     (case startErr (os w (Args c)) of
        Some err \<Rightarrow> (c, w, Some err)
      | None \<Rightarrow> (c\<lparr>Started := True\<rparr>, w\<lparr>started := started w @ [Args c]\<rparr>, None))"

definition Cmd_Wait :: "World \<Rightarrow> Cmd \<Rightarrow> Cmd \<times> error option" where
  "Cmd_Wait w c =
     (if \<not> Started c then (c, Some ''exec: not started'')
      else if Finished c then (c, Some ''exec: Wait was already called'')
      else (c\<lparr>Finished := True\<rparr>, exitErr (os w (Args c))))"

text \<open>
  \<open>slurp\<close> starts the tasks that drain the two streams of a started process, and
  \<open>j.Wait()\<close> returns when they have met the end of both. The model puts the outcome at
  that point: both buffers hold all the process wrote, echoed and logged as the spec of
  the job asks (the stderr task is taken first). The bytes of \<open>Stdin\<close> go to the process
  and show only in what it answers. A job that was never started has nothing to wait for.
\<close>

definition Job_Wait :: "World \<Rightarrow> Job \<Rightarrow> Job \<times> World" where
  "Job_Wait w j =
     (if \<not> Started (Command j) then (j, w)
      else
        (let a = os w (Args (Command j));
             j = j\<lparr>Stderr := errBytes a, Stdout := outBytes a\<rparr>;
             w = (if Emit j \<or> EmitStderr j then w\<lparr>echoed := echoed w @ errBytes a\<rparr> else w);
             w = (if (Log j \<or> LogStderr j) \<and> errBytes a \<noteq> []
                  then addLog w (LogOutput ''stderr'' (Args (Command j)) (errBytes a)) else w);
             w = (if Emit j \<or> EmitStdout j then w\<lparr>echoed := echoed w @ outBytes a\<rparr> else w);
             w = (if (Log j \<or> LogStdout j) \<and> outBytes a \<noteq> []
                  then addLog w (LogOutput ''stdout'' (Args (Command j)) (outBytes a)) else w)
         in (j, w)))"

definition onError :: "Executor \<Rightarrow> World \<Rightarrow> nat \<Rightarrow> error \<Rightarrow> Executor \<times> World" where
  "onError e w i err =
     (let job = jobs e ! i;
          e' = (if \<not> Spec.IgnoreErrors job
                then (updJob e i (\<lambda>j. j\<lparr>Err := Some err\<rparr>))\<lparr>Errors := Errors e + 1\<rparr>
                else e);
          w' = (if \<not> NoLogErrors e
                then (let w1 = addLog w (LogFailed (Args (Command job)) err)
                      in if Stderr job \<noteq> [] then addLog w1 (LogStderrWas (Stderr job)) else w1)
                else w)
      in (e', w'))"

definition RunCommand :: "Executor \<Rightarrow> World \<Rightarrow> Cmd \<Rightarrow> Spec \<Rightarrow> Executor \<times> World \<times> nat option" where
  "RunCommand e w cmd spec =
     (let e = (if Job e = None then e\<lparr>Job := Some []\<rparr> else e)
      in if Errors e > 0 \<and> \<not> IgnoreErrors e then (e, w, None)
         else
           (let cmd = cmd\<lparr>Env := Environ w, Pdeathsig := Some SIGTERM\<rparr>;
                job = Spec.extend spec (Job.fields cmd [] [] None);
                i = length (jobs e);
                e = e\<lparr>Job := Some (jobs e @ [job])\<rparr>;
                w = (if Trace e \<or> GlobalTrace w then addLog w (LogCommand (Args cmd)) else w);
                a = os w (Args cmd);
                fail = (\<lambda>e w err. (fst (onError e w i err), snd (onError e w i err), Some i))
            in case (if Stdin spec \<noteq> None then stdinPipeErr a else None) of
                 Some err \<Rightarrow> fail e w err
               | None \<Rightarrow>
              (case stdoutPipeErr a of
                 Some err \<Rightarrow> fail e w err
               | None \<Rightarrow>
              (case stderrPipeErr a of
                 Some err \<Rightarrow> fail e w err
               | None \<Rightarrow>
              (case Cmd_Start w cmd of
                 (c, w, Some err) \<Rightarrow> fail e w err
               | (c, w, None) \<Rightarrow>
                   (let e = updJob e i (\<lambda>j. j\<lparr>Command := c\<rparr>)
                    in if Background spec then (e, w, Some i)
                       else
                         (let (j, w) = Job_Wait w (jobs e ! i);
                              (c, res) = Cmd_Wait w (Command j);
                              e = updJob e i (\<lambda>_. j\<lparr>Command := c\<rparr>)
                          in case res of
                               Some err \<Rightarrow> fail e w err
                             | None \<Rightarrow> (e, w, Some i))))))))"

definition RunSpec ::
  "Executor \<Rightarrow> World \<Rightarrow> Spec \<Rightarrow> string \<Rightarrow> string list \<Rightarrow> Executor \<times> World \<times> nat option" where
  "RunSpec e w spec cmd arg =
     RunCommand e w
       (case Context spec of
          Some ctx \<Rightarrow> exec_CommandContext ctx cmd arg
        | None \<Rightarrow> exec_Command cmd arg)
       spec"

text \<open>
  The formatted variants take the string \<open>fmt.Sprintf\<close> has produced and split it at
  every space; \<open>strings.Split\<close> always returns at least one field.
\<close>

definition RunSpecf ::
  "Executor \<Rightarrow> World \<Rightarrow> Spec \<Rightarrow> string \<Rightarrow> Executor \<times> World \<times> nat option" where
  "RunSpecf e w spec s = (let f = Split s (CHR '' '') in RunSpec e w spec (hd f) (tl f))"

definition Run ::
  "Executor \<Rightarrow> World \<Rightarrow> string \<Rightarrow> string list \<Rightarrow> Executor \<times> World \<times> nat option" where
  "Run e w cmd arg = RunSpec e w Spec_zero cmd arg"

definition Runf :: "Executor \<Rightarrow> World \<Rightarrow> string \<Rightarrow> Executor \<times> World \<times> nat option" where
  "Runf e w s = RunSpecf e w Spec_zero s"

definition Executor_Emit ::
  "Executor \<Rightarrow> World \<Rightarrow> string \<Rightarrow> string list \<Rightarrow> Executor \<times> World \<times> nat option" where
  "Executor_Emit e w cmd arg = RunSpec e w (Spec_zero\<lparr>Emit := True\<rparr>) cmd arg"

definition Emitf :: "Executor \<Rightarrow> World \<Rightarrow> string \<Rightarrow> Executor \<times> World \<times> nat option" where
  "Emitf e w s = RunSpecf e w (Spec_zero\<lparr>Emit := True\<rparr>) s"

definition Executor_Err :: "Executor \<Rightarrow> error option" where
  "Executor_Err e =
     (if Errors e > 0 then Some (Itoa (Errors e) @ '' jobs with nonzero exit status'')
      else None)"

text \<open>One round of the loop of \<open>Wait\<close>, for the job at position \<open>i\<close>.\<close>

definition waitJob :: "nat \<Rightarrow> Executor \<times> World \<Rightarrow> Executor \<times> World" where
  "waitJob i ew =
     (let e = fst ew; w = snd ew; j = jobs e ! i
      in if \<not> Background j \<or> NoWait j then (e, w)
         else
           (let (j, w) = Job_Wait w j;
                (c, res) = Cmd_Wait w (Command j);
                e = updJob e i (\<lambda>_. j\<lparr>Command := c\<rparr>)
            in case res of
                 Some err \<Rightarrow> onError e w i err
               | None \<Rightarrow> (e, w)))"

definition Wait :: "Executor \<Rightarrow> World \<Rightarrow> Executor \<times> World" where
  "Wait e w =
     (if waited e then (e, w)
      else fold waitJob [0..<length (jobs e)] (e\<lparr>waited := True\<rparr>, w))"

text \<open>Using a \<open>*Job\<close>: a \<open>nil\<close> pointer cannot be dereferenced.\<close>

definition deref :: "Executor \<Rightarrow> nat option \<Rightarrow> Job outcome" where
  "deref e p = (case p of None \<Rightarrow> Panics | Some i \<Rightarrow> Returns (jobs e ! i))"

text \<open>
  Words for statements about \<open>Wait\<close>: the jobs its loop does not pass over, the jobs
  whose \<open>Command.Wait\<close> returns an error (a nonzero exit status, or a process that never
  started), the jobs that add to the error counter, and a job as the two waits leave it.
\<close>

definition joinable :: "Job \<Rightarrow> bool" where
  "joinable j \<longleftrightarrow> Background j \<and> \<not> NoWait j"

definition waitFails :: "World \<Rightarrow> Job \<Rightarrow> bool" where
  "waitFails w j \<longleftrightarrow> snd (Cmd_Wait w (Command j)) \<noteq> None"

definition counted :: "World \<Rightarrow> Job \<Rightarrow> bool" where
  "counted w j \<longleftrightarrow> joinable j \<and> \<not> Spec.IgnoreErrors j \<and> waitFails w j"

definition joined :: "World \<Rightarrow> Job \<Rightarrow> Job" where
  "joined w j =
     (let j1 = fst (Job_Wait w j); cr = Cmd_Wait w (Command j)
      in j1\<lparr>Command := fst cr,
            Err := (if snd cr \<noteq> None \<and> \<not> Spec.IgnoreErrors j then snd cr else Err j1)\<rparr>)"

definition afterWait :: "World \<Rightarrow> Job \<Rightarrow> Job" where
  "afterWait w j = (if joinable j then joined w j else j)"

section \<open>Concrete inputs\<close>

text \<open>The inputs at which the statements below are evaluated.\<close>

definition executor_zero :: Executor where
  "executor_zero = \<lparr>Trace = False, IgnoreErrors = False, NoLogErrors = False, Job = None,
     Errors = 0, waited = False\<rparr>"

definition params_C2 :: Params where
  "params_C2 = \<lparr>Addr = [], CCA = [], Duration = - 3, MeanArrival = 2, ArrivalExpRate = 0,
     LenP5 = 0, LenP95 = 0, DisableGC = False\<rparr>"

definition params_C2_10s :: Params where
  "params_C2_10s = \<lparr>Addr = [], CCA = [], Duration = 10 * Second, MeanArrival = 3 * Second,
     ArrivalExpRate = 0, LenP5 = 0, LenP95 = 0, DisableGC = False\<rparr>"

definition params_C2_unset :: Params where
  "params_C2_unset = \<lparr>Addr = [], CCA = [], Duration = 0, MeanArrival = 3 * Second,
     ArrivalExpRate = 0, LenP5 = 0, LenP95 = 0, DisableGC = False\<rparr>"


definition params_C4 :: Params where
  "params_C4 = \<lparr>Addr = [], CCA = [], Duration = 10 * Second, MeanArrival = 2 * Second,
     ArrivalExpRate = 0, LenP5 = 0, LenP95 = 0, DisableGC = False\<rparr>"



definition params_C5 :: Params where
  "params_C5 = \<lparr>Addr = ''10.0.0.1'', CCA = [], Duration = 0, MeanArrival = 0,
     ArrivalExpRate = 0, LenP5 = 0, LenP95 = 0, DisableGC = False\<rparr>"

definition response_C5 :: Response where
  "response_C5 = \<lparr>Proto = ''HTTP/1.1'', Status = ''200 OK'', StatusCode = 200,
     HeaderLines = [''Content-Length: 5''], Body = replicate 5 (CHR 0x00), BodyErr = None\<rparr>"

definition env_C5 :: HTTPEnv where
  "env_C5 = \<lparr>NewRequestErr = None, Do = (\<lambda>req. Inr response_C5), NowStart = 0,
     NowEnd = 1000000\<rparr>"

definition data_C6 :: Data where
  "data_C6 = AddFlow newData \<lparr>Flow.Start = 0, Flow.End = 5, Flow.Length = 10\<rparr>"








definition answers_false :: Answers where
  "answers_false = \<lparr>stdinPipeErr = None, stdoutPipeErr = None, stderrPipeErr = None,
     startErr = None, exitErr = Some ''exit status 1'', outBytes = [], errBytes = []\<rparr>"

definition world_false :: World where
  "world_false = \<lparr>os = (\<lambda>argv. answers_false), Environ = [], GlobalTrace = False, started = [],
     logged = [], echoed = []\<rparr>"

definition job_false :: Job where
  "job_false = Spec.extend Spec_zero
     (Job.fields
        \<lparr>Path = ''false'', Args = [''false''], Ctx = None, Env = [],
          Pdeathsig = Some SIGTERM, Started = True, Finished = True\<rparr>
        [] [] (Some ''exit status 1''))"

definition executor_failed :: Executor where
  "executor_failed = executor_zero\<lparr>Job := Some [job_false], Errors := 1\<rparr>"

definition world_failed :: World where
  "world_failed = world_false\<lparr>started := [[''false'']],
     logged := [LogFailed [''false''] ''exit status 1'']\<rparr>"

definition answers_C9 :: Answers where
  "answers_C9 = \<lparr>stdinPipeErr = None, stdoutPipeErr = None, stderrPipeErr = None,
     startErr = None, exitErr = Some ''signal: interrupt'', outBytes = ''done'',
     errBytes = []\<rparr>"

definition world_C9 :: World where
  "world_C9 = \<lparr>os = (\<lambda>argv. answers_C9), Environ = [], GlobalTrace = False, started = [],
     logged = [], echoed = []\<rparr>"

definition spec_C9 :: Spec where
  "spec_C9 = Spec_zero\<lparr>Background := True, Spec.IgnoreErrors := True\<rparr>"

definition job_C9 :: Job where
  "job_C9 = Spec.extend spec_C9
     (Job.fields
        \<lparr>Path = ''iperf3'', Args = [''iperf3'', ''-R''], Ctx = None, Env = [],
          Pdeathsig = Some SIGTERM, Started = True, Finished = False\<rparr>
        [] [] None)"

definition executor_C9 :: Executor where
  "executor_C9 = executor_zero\<lparr>Job := Some [job_C9]\<rparr>"

definition world_C9_started :: World where
  "world_C9_started = world_C9\<lparr>started := [[''iperf3'', ''-R'']]\<rparr>"

definition job_C9_counted :: Job where
  "job_C9_counted = job_C9\<lparr>Spec.IgnoreErrors := False\<rparr>"

definition executor_C9_counted :: Executor where
  "executor_C9_counted = executor_zero\<lparr>Job := Some [job_C9_counted]\<rparr>"

section \<open>The harm function\<close>

lemma harm_quotient_bounds:
  fixes solo workload :: real
  assumes "0 \<le> solo" and "solo \<le> workload" and "workload \<noteq> 0"
  shows "0 \<le> (workload - solo) / workload" and "(workload - solo) / workload \<le> 1"
proof -
  from assms have pos: "0 < workload" by simp
  from assms show "0 \<le> (workload - solo) / workload" by simp
  from pos assms show "(workload - solo) / workload \<le> 1" by (simp add: divide_le_eq)
qed

text \<open>
  Claim C1, as stated, puts the quotient in the half-open interval from 0 to 1 for every
  baseline \<open>solo \<ge> 0\<close>. With \<open>solo = 0\<close> and \<open>workload = 5\<close> the function returns
  \<open>(5 - 0) / 5\<close>, which is exactly 1 and so not below 1.
\<close>

theorem C1_counterexample:
  "(0::real) \<le> 0 \<and> (0::real) \<le> 5 \<and>
   LessIsBetter 0 5 = Finite ((5 - 0) / 5) \<and> \<not> ((5 - 0) / 5 < (1::real))"
  by (simp add: LessIsBetter_def)

text \<open>
  Claim C1, amended: for every \<open>solo \<ge> 0\<close> and \<open>workload \<ge> 0\<close>, \<open>LessIsBetter\<close>
  returns the infinite sentinel if \<open>workload = 0\<close>, returns 0 if \<open>workload < solo\<close>, and
  otherwise returns \<open>(workload - solo) / workload\<close>, a value in the closed interval from 0
  to 1 that is never negative and is 1 when \<open>solo = 0\<close>. In particular
  \<open>harm(100, 100) = 0\<close>, \<open>harm(100, 150) = 1/3\<close>, \<open>harm(100, 50) = 0\<close> and
  \<open>harm(100, 0)\<close> is the sentinel.
\<close>

theorem C1_LessIsBetter:
  assumes "0 \<le> solo" and "0 \<le> workload"
  shows "(workload = 0 \<longrightarrow> LessIsBetter solo workload = Infinity) \<and>
    (workload \<noteq> 0 \<and> workload < solo \<longrightarrow> LessIsBetter solo workload = Finite 0) \<and>
    (workload \<noteq> 0 \<and> \<not> workload < solo \<longrightarrow>
       LessIsBetter solo workload = Finite ((workload - solo) / workload) \<and>
       0 \<le> (workload - solo) / workload \<and> (workload - solo) / workload \<le> 1 \<and>
       (solo = 0 \<longrightarrow> (workload - solo) / workload = 1)) \<and>
    LessIsBetter 100 100 = Finite 0 \<and> LessIsBetter 100 150 = Finite (1 / 3) \<and>
    LessIsBetter 100 50 = Finite 0 \<and> LessIsBetter 100 0 = Infinity"
proof -
  have ex: "LessIsBetter 100 100 = Finite 0 \<and> LessIsBetter 100 150 = Finite (1 / 3) \<and>
    LessIsBetter 100 50 = Finite 0 \<and> LessIsBetter 100 0 = Infinity"
    by (simp add: LessIsBetter_def)
  have b: "workload \<noteq> 0 \<and> \<not> workload < solo \<longrightarrow>
       0 \<le> (workload - solo) / workload \<and> (workload - solo) / workload \<le> 1"
    using assms harm_quotient_bounds [of solo workload] by simp
  show ?thesis using ex b by (simp add: LessIsBetter_def)
qed

text \<open>The three branches of C1 at \<open>(100, 0)\<close>, \<open>(100, 50)\<close>, \<open>(100, 150)\<close> and \<open>(0, 5)\<close>.\<close>

theorem C1_LessIsBetter_witness:
  "(0::real) \<le> 100 \<and> (0::real) \<le> 0 \<and> LessIsBetter 100 0 = Infinity \<and>
   (0::real) \<le> 50 \<and> (50::real) < 100 \<and> LessIsBetter 100 50 = Finite 0 \<and>
   (0::real) \<le> 150 \<and> \<not> (150::real) < 100 \<and> LessIsBetter 100 150 = Finite (1 / 3) \<and>
   (0::real) \<le> 5 \<and> LessIsBetter 0 5 = Finite 1"
  using C1_LessIsBetter [of 100 0] C1_LessIsBetter [of 100 50]
    C1_LessIsBetter [of 100 150] C1_LessIsBetter [of 0 5]
  by simp

section \<open>The flow count\<close>

lemma zdiv_le_self:
  fixes a b :: int
  assumes "0 \<le> a"
  shows "a div b \<le> a"
proof (cases "a = 0")
  case True
  then show ?thesis by simp
next
  case False
  with assms have "0 < a" by simp
  then show ?thesis by (rule int_div_le_self)
qed

lemma div64_nonneg:
  assumes "is_int64 a" and "0 \<le> a" and "0 < b"
  shows "div64 a b = a div b"
proof -
  have q: "a sdiv b = a div b"
    using assms by (simp add: signed_divide_int_def sgn_if)
  have "0 \<le> a div b" using assms by (simp add: pos_imp_zdiv_nonneg_iff)
  moreover have "a div b \<le> a" using assms by (simp add: zdiv_le_self)
  ultimately have "0 \<le> a div b \<and> a div b < 2 ^ 63"
    using assms by (simp add: is_int64_def)
  then show ?thesis by (simp add: div64_def wrap64_def q)
qed

lemma div64_neg:
  assumes "is_int64 a" and "a < 0" and "0 < b"
  shows "div64 a b = - ((- a) div b)"
proof -
  have q: "a sdiv b = - ((- a) div b)"
    using assms by (simp add: signed_divide_int_def sgn_if)
  have "0 \<le> (- a) div b" using assms by (simp add: pos_imp_zdiv_nonneg_iff)
  moreover have "(- a) div b \<le> - a" using assms by (simp add: zdiv_le_self)
  ultimately have "- (2 ^ 63) \<le> - ((- a) div b) \<and> - ((- a) div b) < 2 ^ 63"
    using assms by (simp add: is_int64_def)
  then show ?thesis by (simp add: div64_def wrap64_def q)
qed


lemma Flows_NewTest: "Flows (NewTest p) = div64 (Duration (init p)) (MeanArrival (init p))"
  by (simp add: NewTest_def Let_def Test.defs Params.defs)

lemma Duration_NewTest: "Duration (NewTest p) = Duration (init p)"
  by (simp add: NewTest_def Let_def Test.defs Params.defs)

lemma MeanArrival_NewTest: "MeanArrival (NewTest p) = MeanArrival (init p)"
  by (simp add: NewTest_def Let_def Test.defs Params.defs)

text \<open>
  Claim C2, as stated, covers every test duration. With a duration of -3 ns and a mean
  arrival interval of 2 ns, Go's integer division truncates toward zero and \<open>NewTest\<close>
  sets the flow count to -1, while the floor of -3/2 is -2.
\<close>

theorem C2_counterexample:
  "0 < MeanArrival params_C2 \<and> Flows (NewTest params_C2) = - 1 \<and>
   \<lfloor>real_of_int (Duration params_C2) / real_of_int (MeanArrival params_C2)\<rfloor> = - 2"
  by (simp add: NewTest_def params_C2_def init_def Let_def div64_def wrap64_def
      signed_divide_int_def Test.defs Params.defs)

text \<open>
  Claim C2, amended: for every mean arrival interval \<open>A > 0\<close> and every test duration
  \<open>D \<ge> 0\<close>, the flow count derived by \<open>NewTest\<close> is the floor of \<open>D' / A\<close>, where
  \<open>D'\<close> is the duration of the plan: \<open>D\<close> itself, or the default of 10 s when \<open>D\<close> is
  0 (unset). For \<open>D < 0\<close> the quotient is rounded toward zero instead.
\<close>

theorem C2_flow_count:
  assumes "0 < MeanArrival p" and "is_int64 (Duration p)"
  shows "Duration (NewTest p) = (if Duration p = 0 then DefaultDuration else Duration p) \<and>
     MeanArrival (NewTest p) = MeanArrival p \<and>
     Flows (NewTest p) =
       (if 0 \<le> Duration p
        then \<lfloor>real_of_int (Duration (NewTest p)) / real_of_int (MeanArrival p)\<rfloor>
        else - \<lfloor>real_of_int (- Duration p) / real_of_int (MeanArrival p)\<rfloor>)"
proof -
  have d: "Duration (init p) = (if Duration p = 0 then DefaultDuration else Duration p)"
    by (simp add: init_def)
  have a: "MeanArrival (init p) = MeanArrival p"
    using assms by (simp add: init_def)
  have dd: "is_int64 DefaultDuration \<and> 0 \<le> DefaultDuration"
    by (simp add: DefaultDuration_def Second_def Millisecond_def is_int64_def)
  show ?thesis
  proof (cases "0 \<le> Duration p")
    case True
    then have "is_int64 (Duration (init p)) \<and> 0 \<le> Duration (init p)"
      using assms dd by (simp add: d)
    then have "div64 (Duration (init p)) (MeanArrival p) = Duration (init p) div MeanArrival p"
      using assms div64_nonneg by blast
    then show ?thesis using True
      by (simp add: Flows_NewTest Duration_NewTest MeanArrival_NewTest a d
          floor_divide_of_int_eq)
  next
    case False
    then have "div64 (Duration p) (MeanArrival p) = - ((- Duration p) div MeanArrival p)"
      using assms div64_neg by simp
    then show ?thesis using False
      by (simp add: Flows_NewTest Duration_NewTest MeanArrival_NewTest a d
          floor_divide_of_int_eq del: of_int_minus)
  qed
qed

text \<open>
  C2 at a 10 s test with arrivals every 3 s (3 flows), at an unset duration (the default
  of 10 s gives 3 flows again) and at -3 ns by 2 ns (rounded toward zero: -1).
\<close>

theorem C2_flow_count_witness:
  "0 < MeanArrival params_C2_10s \<and> is_int64 (Duration params_C2_10s) \<and>
   Flows (NewTest params_C2_10s) = 3 \<and>
   0 < MeanArrival params_C2_unset \<and> is_int64 (Duration params_C2_unset) \<and>
   Duration (NewTest params_C2_unset) = 10 * Second \<and>
   Flows (NewTest params_C2_unset) = 3 \<and>
   0 < MeanArrival params_C2 \<and> is_int64 (Duration params_C2) \<and>
   Flows (NewTest params_C2) = - 1"
  using C2_flow_count [of params_C2_10s] C2_flow_count [of params_C2_unset]
    C2_flow_count [of params_C2]
  by (simp add: params_C2_10s_def params_C2_unset_def params_C2_def is_int64_def
      Second_def Millisecond_def DefaultDuration_def)

section \<open>The flow-size distribution\<close>

lemma float_to_int_pos: "0 \<le> x \<Longrightarrow> float_to_int x = \<lfloor>x\<rfloor>"
  by (simp add: float_to_int_def)


lemma MeanFlowLen_NewTest: "MeanFlowLen (NewTest p) = float_to_int (mfl (init p))"
  by (simp add: NewTest_def Let_def Test.defs Params.defs mfl_def mu_def sigma_def
      log5_def log95_def)

lemma Bandwidth_NewTest:
  "Bandwidth (NewTest p) = float_to_int (rps (init p) * mfl (init p) * 8)"
  by (simp add: NewTest_def Let_def Test.defs Params.defs mfl_def mu_def sigma_def
      log5_def log95_def rps_def)









section \<open>The estimated bandwidth\<close>


lemma mfl_ge_1_defaults:
  assumes "LenP5 p = 0" and "LenP95 p = 0"
  shows "1 \<le> mfl (init p)"
proof -
  have a: "0 \<le> ln (real_of_int DefaultLenP5)"
    by (simp add: DefaultLenP5_def Kilobyte_def)
  have b: "0 \<le> ln (real_of_int DefaultLenP95)"
    by (simp add: DefaultLenP95_def Megabyte_def Kilobyte_def)
  have "0 \<le> mu (init p) + 0.5 * (sigma (init p)) ^ 2"
    using a b assms by (simp add: mu_def log5_def log95_def init_def)
  then show ?thesis by (simp add: mfl_def)
qed




text \<open>
  For a mean arrival interval that does not divide one second, the integer division
  \<open>1 * time.Second / t.MeanArrival\<close> drops the fraction of the rate before it is
  converted to a float. On a 10 s test with one arrival every 2 s the rate is 0 and so is
  the estimated bandwidth, although 5 flows of at least one byte each are planned.
\<close>

lemma rps_C4: "rps (init params_C4) = 0"
  by (simp add: rps_def init_def params_C4_def div64_def wrap64_def signed_divide_int_def
      Second_def Millisecond_def)

lemma Bandwidth_zero_above_one_second:
  "Bandwidth (NewTest params_C4) = 0 \<and> Flows (NewTest params_C4) = 5 \<and>
   Params.Duration (NewTest params_C4) = 10 * Second \<and> 1 \<le> MeanFlowLen (NewTest params_C4)"
proof -
  have b: "Bandwidth (NewTest params_C4) = 0"
    by (simp add: Bandwidth_NewTest rps_C4 float_to_int_def)
  have f: "Flows (NewTest params_C4) = 5"
    by (simp add: Flows_NewTest init_def params_C4_def div64_def wrap64_def
        signed_divide_int_def Second_def Millisecond_def)
  have d: "Params.Duration (NewTest params_C4) = 10 * Second"
    by (simp add: Duration_NewTest init_def params_C4_def Second_def Millisecond_def)
  have m1: "1 \<le> mfl (init params_C4)"
    by (rule mfl_ge_1_defaults) (simp_all add: params_C4_def)
  then have "1 \<le> \<lfloor>mfl (init params_C4)\<rfloor>" by (simp add: le_floor_iff)
  then have m: "1 \<le> MeanFlowLen (NewTest params_C4)"
    using m1 by (simp add: MeanFlowLen_NewTest float_to_int_pos)
  show ?thesis using b f d m by simp
qed

section \<open>The recorded flow length\<close>

text \<open>
  Claim C5 on a round trip that succeeds with status 200 and a body of exactly the 5 bytes
  requested: \<open>doRequest\<close> drains the response with \<open>resp.Write(cw)\<close>, which hands the
  counting writer the status line and the header as well, so the record carries the length
  17 + 19 + 2 + 5 = 43, not 5.
\<close>

theorem C5_length_counts_header:
  "StatusCode response_C5 = 200 \<and> length (Body response_C5) = 5 \<and>
   doRequest (NewTest params_C5) env_C5 5 =
     Inr \<lparr>Flow.Start = 0, Flow.End = 1000000, Flow.Length = 43\<rparr>"
  by (simp add: doRequest_def env_C5_def response_C5_def Response_Write_def CRLF_def
      countWriter_Write_def wrap64_def)

section \<open>Analyze\<close>

text \<open>
  Claim C6: \<open>Analyze\<close> returns an error exactly when the flow log holds no flow (and so no
  flow duration); the error stands in place of any statistics. For every log with at least
  one flow it returns statistics, without an error, whose three harm values are unset
  (zero).
\<close>

theorem C6_Analyze:
  "((\<exists>e. Analyze gm qt d = Inl e) \<longleftrightarrow> FlowDurations d = []) \<and>
   (FlowDurations d = [] \<longleftrightarrow> Flow d = []) \<and>
   (FlowDurations d \<noteq> [] \<longrightarrow>
      (\<exists>s. Analyze gm qt d = Inr s \<and> Harm (GeoMean s) = Finite 0 \<and>
         Harm (Median s) = Finite 0 \<and> Harm (P95 s) = Finite 0))"
  by (simp add: Analyze_def FlowDurations_def Let_def FCTFromFloat64_def)

text \<open>C6 on the empty log and on a log of one flow that took 5 ns.\<close>

theorem C6_Analyze_witness:
  "FlowDurations newData = [] \<and> (\<exists>e. Analyze (\<lambda>xs. 1) (\<lambda>p xs. 1) newData = Inl e) \<and>
   FlowDurations data_C6 \<noteq> [] \<and>
   Analyze (\<lambda>xs. hd xs) (\<lambda>p xs. hd xs) data_C6 =
     Inr \<lparr>GeoMean = \<lparr>FCT.Duration = 5, Harm = Finite 0\<rparr>,
          Median = \<lparr>FCT.Duration = 5, Harm = Finite 0\<rparr>,
          P95 = \<lparr>FCT.Duration = 5, Harm = Finite 0\<rparr>\<rparr>"
  using C6_Analyze [of "\<lambda>xs. 1" "\<lambda>p xs. 1" newData]
    C6_Analyze [of "\<lambda>xs. hd xs" "\<lambda>p xs. hd xs" data_C6]
  by (simp add: newData_def data_C6_def AddFlow_def Analyze_def FlowDurations_def
      Flow_Duration_def sat64_def FCTFromFloat64_def float_to_int_def)

section \<open>The request handler\<close>











section \<open>The executor: submissions after a failure\<close>

lemma RunCommand_skipped:
  assumes "0 < Errors e" and "\<not> IgnoreErrors e"
  shows "RunCommand e w cmd spec = (e\<lparr>Job := Some (jobs e)\<rparr>, w, None)"
  using assms by (cases "Job e") (simp_all add: RunCommand_def jobs_def Let_def)

lemma Run_false: "Run executor_zero world_false ''false'' [] = (executor_failed, world_failed, Some 0)"
  by (simp add: Run_def RunSpec_def RunCommand_def executor_zero_def world_false_def Spec_zero_def
      job_false_def answers_false_def exec_Command_def Cmd_Start_def Cmd_Wait_def Job_Wait_def
      onError_def addLog_def updJob_def jobs_def executor_failed_def world_failed_def
      Let_def Spec.defs Job.defs)

text \<open>
  Claim C8. The error counter counts failed jobs: it starts at 0 and \<open>onError\<close> only ever
  adds 1 to it, so a counter that is not zero is positive, which is what \<open>RunCommand\<close>
  tests. For every executor whose counter is nonzero and whose \<open>IgnoreErrors\<close> flag is
  unset, \<open>RunCommand\<close> and each of its wrappers leaves the world as it was (no process is
  started, nothing is logged), returns no job, and leaves the executor as it was, but for
  a \<open>nil\<close> job slice, which becomes the empty slice: the jobs and the error counter are
  unchanged.
\<close>

theorem C8_submission_skipped:
  assumes "Errors e \<noteq> 0" and "0 \<le> Errors e" and "\<not> IgnoreErrors e"
  shows "RunCommand e w cmd spec = (e\<lparr>Job := Some (jobs e)\<rparr>, w, None) \<and>
    RunSpec e w spec name arg = (e\<lparr>Job := Some (jobs e)\<rparr>, w, None) \<and>
    RunSpecf e w spec s = (e\<lparr>Job := Some (jobs e)\<rparr>, w, None) \<and>
    Run e w name arg = (e\<lparr>Job := Some (jobs e)\<rparr>, w, None) \<and>
    Runf e w s = (e\<lparr>Job := Some (jobs e)\<rparr>, w, None) \<and>
    Executor_Emit e w name arg = (e\<lparr>Job := Some (jobs e)\<rparr>, w, None) \<and>
    Emitf e w s = (e\<lparr>Job := Some (jobs e)\<rparr>, w, None) \<and>
    jobs (e\<lparr>Job := Some (jobs e)\<rparr>) = jobs e \<and>
    Errors (e\<lparr>Job := Some (jobs e)\<rparr>) = Errors e"
proof -
  from assms have "0 < Errors e" by simp
  then show ?thesis
    using assms(3)
    by (simp add: RunCommand_skipped RunSpec_def RunSpecf_def Run_def Runf_def
        Executor_Emit_def Emitf_def Let_def jobs_def)
qed

text \<open>
  C8 after the foreground command \<open>false\<close> has failed on a fresh executor: the next
  submissions are skipped. The same on an executor whose job slice is still \<open>nil\<close>.
\<close>

theorem C8_submission_skipped_witness:
  "Run executor_zero world_false ''false'' [] = (executor_failed, world_failed, Some 0) \<and>
   Errors executor_failed \<noteq> 0 \<and> 0 \<le> Errors executor_failed \<and>
   \<not> IgnoreErrors executor_failed \<and>
   Run executor_failed world_failed ''true'' [] = (executor_failed, world_failed, None) \<and>
   Runf executor_failed world_failed ''ip link'' = (executor_failed, world_failed, None) \<and>
   RunCommand (executor_zero\<lparr>Errors := 1\<rparr>) world_false (exec_Command ''true'' []) Spec_zero =
     (executor_zero\<lparr>Job := Some [], Errors := 1\<rparr>, world_false, None)"
  using C8_submission_skipped [of executor_failed world_failed "exec_Command ''true'' []"
      Spec_zero "''true''" "[]" "''ip link''"]
    C8_submission_skipped [of "executor_zero\<lparr>Errors := 1\<rparr>" world_false
      "exec_Command ''true'' []" Spec_zero "''true''" "[]" "''ip link''"]
    Run_false
  by (simp add: executor_failed_def executor_zero_def jobs_def)

text \<open>
  Claim C10: whenever a submission is skipped because the error counter is nonzero and
  \<open>IgnoreErrors\<close> is unset, \<open>RunCommand\<close> and every wrapper return a \<open>nil\<close> job pointer,
  and dereferencing what was returned fails.
\<close>

theorem C10_skipped_returns_nil:
  assumes "Errors e \<noteq> 0" and "0 \<le> Errors e" and "\<not> IgnoreErrors e"
  shows "snd (snd (RunCommand e w cmd spec)) = None \<and>
    snd (snd (RunSpec e w spec name arg)) = None \<and>
    snd (snd (RunSpecf e w spec s)) = None \<and>
    snd (snd (Run e w name arg)) = None \<and>
    snd (snd (Runf e w s)) = None \<and>
    snd (snd (Executor_Emit e w name arg)) = None \<and>
    snd (snd (Emitf e w s)) = None \<and>
    deref (fst (RunCommand e w cmd spec)) (snd (snd (RunCommand e w cmd spec))) = Panics \<and>
    deref (fst (RunSpecf e w spec s)) (snd (snd (RunSpecf e w spec s))) = Panics"
proof -
  from assms have "0 < Errors e" by simp
  then show ?thesis
    using assms(3)
    by (simp add: RunCommand_skipped RunSpec_def RunSpecf_def Run_def Runf_def
        Executor_Emit_def Emitf_def Let_def deref_def)
qed

text \<open>
  C10 after the failed \<open>false\<close>: the next \<open>RunSpecf\<close> returns \<open>nil\<close>, where the first
  submission had returned the job at position 0.
\<close>

theorem C10_skipped_returns_nil_witness:
  "snd (snd (Run executor_zero world_false ''false'' [])) = Some 0 \<and>
   Errors executor_failed \<noteq> 0 \<and> 0 \<le> Errors executor_failed \<and>
   \<not> IgnoreErrors executor_failed \<and>
   snd (snd (RunSpecf executor_failed world_failed Spec_zero ''ip link'')) = None \<and>
   deref (fst (RunSpecf executor_failed world_failed Spec_zero ''ip link''))
     (snd (snd (RunSpecf executor_failed world_failed Spec_zero ''ip link''))) = Panics"
proof -
  have h: "Errors executor_failed \<noteq> 0 \<and> 0 \<le> Errors executor_failed \<and>
      \<not> IgnoreErrors executor_failed"
    by (simp add: executor_failed_def executor_zero_def)
  have r: "snd (snd (Run executor_zero world_false ''false'' [])) = Some 0"
    by (simp add: Run_false)
  show ?thesis
    using C10_skipped_returns_nil [of executor_failed world_failed "exec_Command ''true'' []"
        Spec_zero "''true''" "[]" "''ip link''"] h r
    by (simp add: deref_def)
qed

section \<open>The executor: Wait\<close>

lemma Job_Wait_os: "os (snd (Job_Wait w j)) = os w"
  by (simp add: Job_Wait_def Let_def addLog_def)

lemma Job_Wait_fst:
  "fst (Job_Wait w j) =
     (if Started (Command j)
      then j\<lparr>Stderr := errBytes (os w (Args (Command j))),
             Stdout := outBytes (os w (Args (Command j)))\<rparr>
      else j)"
  by (simp add: Job_Wait_def Let_def)

lemma Cmd_Wait_os: "os w1 = os w \<Longrightarrow> Cmd_Wait w1 c = Cmd_Wait w c"
  by (simp add: Cmd_Wait_def)

lemma jobs_updJob: "jobs (updJob e i f) = (jobs e)[i := f (jobs e ! i)]"
  by (simp add: updJob_def jobs_def)

lemma Errors_updJob: "Errors (updJob e i f) = Errors e"
  by (simp add: updJob_def)

lemma jobs_Errors_update: "jobs (e\<lparr>Errors := n\<rparr>) = jobs e"
  by (simp add: jobs_def)

lemma onError_os: "os (snd (onError e w i err)) = os w"
  by (simp add: onError_def Let_def addLog_def)

lemma onError_waited: "waited (fst (onError e w i err)) = waited e"
  by (simp add: onError_def Let_def updJob_def)

lemma onError_Errors:
  "Errors (fst (onError e w i err)) =
     Errors e + (if Spec.IgnoreErrors (jobs e ! i) then 0 else 1)"
  by (simp add: onError_def Let_def updJob_def)

lemma onError_jobs:
  "jobs (fst (onError e w i err)) =
     (if Spec.IgnoreErrors (jobs e ! i) then jobs e
      else (jobs e)[i := (jobs e ! i)\<lparr>Err := Some err\<rparr>])"
  by (simp add: onError_def Let_def jobs_updJob jobs_Errors_update)

lemma waitJob_skip: "\<not> joinable (jobs e ! i) \<Longrightarrow> waitJob i (e, w) = (e, w)"
  by (auto simp: waitJob_def joinable_def Let_def)

lemma waitJob_unfold:
  assumes "joinable (jobs e ! i)"
  shows "waitJob i (e, w) =
     (let j1 = fst (Job_Wait w (jobs e ! i)); w1 = snd (Job_Wait w (jobs e ! i));
          cr = Cmd_Wait w (Command (jobs e ! i));
          e1 = updJob e i (\<lambda>_. j1\<lparr>Command := fst cr\<rparr>)
      in case snd cr of Some err \<Rightarrow> onError e1 w1 i err | None \<Rightarrow> (e1, w1))"
proof -
  have c: "Command (fst (Job_Wait w (jobs e ! i))) = Command (jobs e ! i)"
    by (simp add: Job_Wait_fst)
  have "Cmd_Wait (snd (Job_Wait w (jobs e ! i))) (Command (jobs e ! i)) =
      Cmd_Wait w (Command (jobs e ! i))"
    by (rule Cmd_Wait_os) (rule Job_Wait_os)
  then show ?thesis
    using assms c
    by (simp add: waitJob_def joinable_def Let_def split_beta cong: option.case_cong)
qed

lemma waitJob_os: "os (snd (waitJob i (e, w))) = os w"
proof (cases "joinable (jobs e ! i)")
  case True
  then show ?thesis
    by (simp add: waitJob_unfold Let_def onError_os Job_Wait_os split: option.splits)
next
  case False
  then show ?thesis by (simp add: waitJob_skip)
qed

lemma waitJob_waited: "waited (fst (waitJob i (e, w))) = waited e"
proof (cases "joinable (jobs e ! i)")
  case True
  then show ?thesis
    by (simp add: waitJob_unfold Let_def onError_waited updJob_def split: option.splits)
next
  case False
  then show ?thesis by (simp add: waitJob_skip)
qed

lemma Spec_IgnoreErrors_Job_Wait:
  "Spec.IgnoreErrors (fst (Job_Wait w j)) = Spec.IgnoreErrors j"
  by (simp add: Job_Wait_fst)

lemma waitJob_Errors:
  assumes "i < length (jobs e)"
  shows "Errors (fst (waitJob i (e, w))) = Errors e + (if counted w (jobs e ! i) then 1 else 0)"
proof (cases "joinable (jobs e ! i)")
  case True
  then show ?thesis
    using assms
    by (simp add: waitJob_unfold Let_def onError_Errors jobs_updJob Errors_updJob counted_def
        waitFails_def Spec_IgnoreErrors_Job_Wait split: option.splits)
next
  case False
  then show ?thesis by (simp add: waitJob_skip counted_def)
qed

lemma waitJob_jobs:
  assumes "i < length (jobs e)"
  shows "jobs (fst (waitJob i (e, w))) =
     (if joinable (jobs e ! i) then (jobs e)[i := joined w (jobs e ! i)] else jobs e)"
proof (cases "joinable (jobs e ! i)")
  case True
  then show ?thesis
    using assms
    by (simp add: waitJob_unfold Let_def onError_jobs jobs_updJob joined_def
        Spec_IgnoreErrors_Job_Wait split: option.splits)
next
  case False
  then show ?thesis by (simp add: waitJob_skip)
qed

lemma joined_os: "os w1 = os w \<Longrightarrow> joined w1 j = joined w j"
  by (simp add: joined_def Job_Wait_fst Cmd_Wait_os [of w1 w])

lemma counted_os: "os w1 = os w \<Longrightarrow> counted w1 j = counted w j"
  by (simp add: counted_def waitFails_def Cmd_Wait_os [of w1 w])

lemma prefix_step:
  assumes "k < length xs"
  shows "(map f (take k xs) @ drop k xs)[k := f (xs ! k)] =
     map f (take (Suc k) xs) @ drop (Suc k) xs"
proof -
  have d: "drop k xs = xs ! k # drop (Suc k) xs"
    using assms by (simp add: Cons_nth_drop_Suc)
  have t: "take (Suc k) xs = take k xs @ [xs ! k]"
    using assms by (simp add: take_Suc_conv_app_nth)
  have l: "length (map f (take k xs)) = k" using assms by simp
  show ?thesis
    unfolding d t using l by (simp add: list_update_append)
qed

lemma prefix_nth:
  assumes "k < length xs"
  shows "(map f (take k xs) @ drop k xs) ! k = xs ! k"
  using assms by (simp add: nth_append)

lemma waitJob_jobs': 
  assumes "i < length (jobs e)"
  shows "jobs (fst (waitJob i (e, w))) = (jobs e)[i := afterWait w (jobs e ! i)]"
  using assms by (simp add: waitJob_jobs afterWait_def)

lemma fold_waitJob:
  assumes "k \<le> length (jobs e)"
  shows "os (snd (fold waitJob [0..<k] (e, w))) = os w \<and>
     waited (fst (fold waitJob [0..<k] (e, w))) = waited e \<and>
     jobs (fst (fold waitJob [0..<k] (e, w))) =
       map (afterWait w) (take k (jobs e)) @ drop k (jobs e) \<and>
     Errors (fst (fold waitJob [0..<k] (e, w))) =
       Errors e + int (length (filter (counted w) (take k (jobs e))))"
  using assms
proof (induction k)
  case 0
  then show ?case by simp
next
  case (Suc k)
  define ek where "ek = fst (fold waitJob [0..<k] (e, w))"
  define wk where "wk = snd (fold waitJob [0..<k] (e, w))"
  have k: "k < length (jobs e)" using Suc.prems by simp
  have ih: "os wk = os w" "waited ek = waited e"
    "jobs ek = map (afterWait w) (take k (jobs e)) @ drop k (jobs e)"
    "Errors ek = Errors e + int (length (filter (counted w) (take k (jobs e))))"
    using Suc.IH k by (simp_all add: ek_def wk_def)
  have len: "k < length (jobs ek)" using k by (simp add: ih(3))
  have nth: "jobs ek ! k = jobs e ! k"
    unfolding ih(3) using k by (rule prefix_nth)
  have step: "fold waitJob [0..<Suc k] (e, w) = waitJob k (ek, wk)"
    by (simp add: ek_def wk_def)
  have 1: "os (snd (waitJob k (ek, wk))) = os w"
    by (simp add: waitJob_os ih(1))
  have 2: "waited (fst (waitJob k (ek, wk))) = waited e"
    by (simp add: waitJob_waited ih(2))
  have "jobs (fst (waitJob k (ek, wk))) = (jobs ek)[k := afterWait wk (jobs ek ! k)]"
    using len by (rule waitJob_jobs')
  also have "\<dots> = (jobs ek)[k := afterWait w (jobs e ! k)]"
    by (simp add: nth afterWait_def joined_os [OF ih(1)])
  also have "\<dots> = map (afterWait w) (take (Suc k) (jobs e)) @ drop (Suc k) (jobs e)"
    unfolding ih(3) using k by (rule prefix_step)
  finally have 3: "jobs (fst (waitJob k (ek, wk))) =
      map (afterWait w) (take (Suc k) (jobs e)) @ drop (Suc k) (jobs e)" .
  have "Errors (fst (waitJob k (ek, wk))) = Errors ek + (if counted wk (jobs ek ! k) then 1 else 0)"
    using len by (rule waitJob_Errors)
  also have "\<dots> = Errors ek + (if counted w (jobs e ! k) then 1 else 0)"
    by (simp add: nth counted_os [OF ih(1)])
  also have "\<dots> = Errors e + int (length (filter (counted w) (take (Suc k) (jobs e))))"
    using k by (simp add: ih(4) take_Suc_conv_app_nth)
  finally have 4: "Errors (fst (waitJob k (ek, wk))) =
      Errors e + int (length (filter (counted w) (take (Suc k) (jobs e))))" .
  show ?case unfolding step using 1 2 3 4 by blast
qed

lemma Wait_first:
  assumes "\<not> waited e"
  shows "waited (fst (Wait e w)) \<and> os (snd (Wait e w)) = os w \<and>
     jobs (fst (Wait e w)) = map (afterWait w) (jobs e) \<and>
     Errors (fst (Wait e w)) = Errors e + int (length (filter (counted w) (jobs e)))"
proof -
  have j: "jobs (e\<lparr>waited := True\<rparr>) = jobs e" by (simp add: jobs_def)
  have "length (jobs e) \<le> length (jobs (e\<lparr>waited := True\<rparr>))" by (simp add: j)
  from fold_waitJob [OF this, of w] show ?thesis
    using assms by (simp add: Wait_def j)
qed

lemma joined_started:
  assumes "Started (Command j)" and "\<not> Finished (Command j)"
  shows "Finished (Command (joined w j)) \<and>
     Stdout (joined w j) = outBytes (os w (Args (Command j))) \<and>
     Stderr (joined w j) = errBytes (os w (Args (Command j)))"
  using assms by (simp add: joined_def Job_Wait_fst Cmd_Wait_def Let_def)

lemma RunSpecf_C9: "RunSpecf executor_zero world_C9 spec_C9 ''iperf3 -R'' =
  (executor_zero\<lparr>Job := Some [job_C9]\<rparr>, world_C9\<lparr>started := [[''iperf3'', ''-R'']]\<rparr>, Some 0)"
  by (simp add: RunSpecf_def RunSpec_def RunCommand_def executor_zero_def world_C9_def spec_C9_def
      Spec_zero_def job_C9_def answers_C9_def exec_Command_def Cmd_Start_def updJob_def jobs_def
      Let_def Spec.defs Job.defs)

lemma job_C9_facts:
  "joinable job_C9 \<and> waitFails world_C9_started job_C9 \<and> Spec.IgnoreErrors job_C9 \<and>
   Started (Command job_C9) \<and> \<not> Finished (Command job_C9) \<and>
   os world_C9_started (Args (Command job_C9)) = answers_C9"
  by (simp add: joinable_def waitFails_def job_C9_def spec_C9_def Spec_zero_def Cmd_Wait_def
      world_C9_started_def world_C9_def answers_C9_def Spec.defs Job.defs)

lemma job_C9_counted_facts:
  "joinable job_C9_counted \<and> waitFails world_C9_started job_C9_counted \<and>
   \<not> Spec.IgnoreErrors job_C9_counted"
  by (simp add: joinable_def waitFails_def job_C9_counted_def job_C9_def spec_C9_def
      Spec_zero_def Cmd_Wait_def world_C9_started_def world_C9_def answers_C9_def Spec.defs
      Job.defs)

lemma executor_C9_facts:
  "\<not> waited executor_C9 \<and> jobs executor_C9 = [job_C9] \<and> Errors executor_C9 = 0"
  by (simp add: executor_C9_def executor_zero_def jobs_def)

lemma executor_C9_counted_facts:
  "\<not> waited executor_C9_counted \<and> jobs executor_C9_counted = [job_C9_counted] \<and>
   Errors executor_C9_counted = 0"
  by (simp add: executor_C9_counted_def executor_zero_def jobs_def)

text \<open>
  Claim C9, as stated, has every joined job add to the error counter when it exits with a
  nonzero status. A background job whose spec sets \<open>IgnoreErrors\<close> is joined by \<open>Wait\<close>,
  its \<open>Command.Wait\<close> reports the interrupt, and the counter stays at 0.
\<close>

theorem C9_counterexample:
  "RunSpecf executor_zero world_C9 spec_C9 ''iperf3 -R'' =
     (executor_C9, world_C9_started, Some 0) \<and>
   Background (jobs executor_C9 ! 0) \<and> \<not> NoWait (jobs executor_C9 ! 0) \<and>
   snd (Cmd_Wait world_C9_started (Command (jobs executor_C9 ! 0))) = Some ''signal: interrupt'' \<and>
   Errors executor_C9 = 0 \<and> Errors (fst (Wait executor_C9 world_C9_started)) = 0"
proof -
  have w: "snd (Cmd_Wait world_C9_started (Command job_C9)) = Some ''signal: interrupt''"
    using job_C9_facts by (simp add: Cmd_Wait_def answers_C9_def)
  have "\<not> counted world_C9_started job_C9"
    using job_C9_facts by (simp add: counted_def)
  then have "Errors (fst (Wait executor_C9 world_C9_started)) = 0"
    using Wait_first [of executor_C9 world_C9_started] executor_C9_facts by simp
  then show ?thesis
    using RunSpecf_C9 executor_C9_facts job_C9_facts w
    by (simp add: executor_C9_def world_C9_started_def joinable_def)
qed

text \<open>
  Claim C9, amended: the first call of \<open>Wait\<close> joins every tracked background job not
  marked \<open>NoWait\<close> (a started process is waited for and both its output buffers are
  complete), leaves every other job as it was, and adds to the error counter one for each
  joined job whose \<open>Command.Wait\<close> returns an error and whose spec does not set
  \<open>IgnoreErrors\<close>. \<open>Wait\<close> is idempotent: once it has been called, a further call
  changes nothing, neither the jobs nor the error counter nor anything outside.
\<close>

theorem C9_Wait:
  "Wait (fst (Wait e w)) (snd (Wait e w)) = Wait e w \<and>
   (waited e \<longrightarrow> Wait e w = (e, w)) \<and>
   (\<not> waited e \<longrightarrow>
      waited (fst (Wait e w)) \<and>
      length (jobs (fst (Wait e w))) = length (jobs e) \<and>
      (\<forall>i < length (jobs e).
         (joinable (jobs e ! i) \<and> Started (Command (jobs e ! i)) \<and>
          \<not> Finished (Command (jobs e ! i)) \<longrightarrow>
            Finished (Command (jobs (fst (Wait e w)) ! i)) \<and>
            Stdout (jobs (fst (Wait e w)) ! i) = outBytes (os w (Args (Command (jobs e ! i)))) \<and>
            Stderr (jobs (fst (Wait e w)) ! i) = errBytes (os w (Args (Command (jobs e ! i))))) \<and>
         (\<not> joinable (jobs e ! i) \<longrightarrow> jobs (fst (Wait e w)) ! i = jobs e ! i)) \<and>
      Errors (fst (Wait e w)) = Errors e + int (length (filter (counted w) (jobs e))))"
proof (cases "waited e")
  case True
  then show ?thesis by (simp add: Wait_def)
next
  case False
  note f = Wait_first [OF False, of w]
  have idem: "Wait (fst (Wait e w)) (snd (Wait e w)) = Wait e w"
    using f by (simp add: Wait_def [of "fst (Wait e w)"])
  have per: "(joinable (jobs e ! i) \<and> Started (Command (jobs e ! i)) \<and>
          \<not> Finished (Command (jobs e ! i)) \<longrightarrow>
            Finished (Command (jobs (fst (Wait e w)) ! i)) \<and>
            Stdout (jobs (fst (Wait e w)) ! i) = outBytes (os w (Args (Command (jobs e ! i)))) \<and>
            Stderr (jobs (fst (Wait e w)) ! i) = errBytes (os w (Args (Command (jobs e ! i))))) \<and>
         (\<not> joinable (jobs e ! i) \<longrightarrow> jobs (fst (Wait e w)) ! i = jobs e ! i)"
    if "i < length (jobs e)" for i
    using that f joined_started [of "jobs e ! i" w] by (simp add: afterWait_def)
  show ?thesis using False f idem per by simp
qed

text \<open>
  C9 on the executor of the counterexample (the job is reaped, its output is complete,
  the counter stays at 0) and on the same job without \<open>IgnoreErrors\<close> (the counter
  becomes 1).
\<close>

theorem C9_Wait_witness:
  "\<not> waited executor_C9 \<and>
   Wait (fst (Wait executor_C9 world_C9_started)) (snd (Wait executor_C9 world_C9_started)) =
     Wait executor_C9 world_C9_started \<and>
   Finished (Command (jobs (fst (Wait executor_C9 world_C9_started)) ! 0)) \<and>
   Stdout (jobs (fst (Wait executor_C9 world_C9_started)) ! 0) = ''done'' \<and>
   Errors (fst (Wait executor_C9 world_C9_started)) = 0 \<and>
   \<not> waited executor_C9_counted \<and>
   Errors (fst (Wait executor_C9_counted world_C9_started)) = 1"
proof -
  have n: "\<not> counted world_C9_started job_C9"
    using job_C9_facts by (simp add: counted_def)
  have y: "counted world_C9_started job_C9_counted"
    using job_C9_counted_facts by (simp add: counted_def)
  have o: "outBytes answers_C9 = ''done''" by (simp add: answers_C9_def)
  show ?thesis
    using C9_Wait [of executor_C9 world_C9_started] C9_Wait [of executor_C9_counted world_C9_started]
      executor_C9_facts executor_C9_counted_facts job_C9_facts n y o
    by simp
qed

end
